theory Spec2Isabelle
  imports Complex_Main "HOL-Library.Sublist"
begin

section \<open>Outline nodes\<close>

text \<open>
  A number of the source: a finite value, one of the two infinities, or \<open>NaN\<close>. Finite
  values are exact rationals.
\<close>

datatype jsnum = Fin rat | PInf | NInf | NaN

text \<open>
  The values stored under a node's \<open>metadata\<close> keys (a record from strings to any value in
  the source), as far as the generators modelled here produce them.
\<close>

datatype jsval = JUndefined | JBool bool | JNum jsnum | JStr string | JArr "jsval list"

text \<open>
  \<open>OutlineNode\<close> of \<open>types.ts\<close>. Optional fields are options: \<open>None\<close> is the absent
  (\<open>undefined\<close>) field, so \<open>children = None\<close> and \<open>children = Some []\<close> are different
  values, as they are for a caller of the library. \<open>depth\<close> is an integer.
\<close>

datatype OutlineNode = OutlineNode
  (title: string)
  (type: string)
  (depth: int)
  (line: "int option")
  (column: "int option")
  (children: "OutlineNode list option")
  (metadata: "(string \<times> jsval) list option")
  (node_id: "string option")
  (anchor: "string option")

fun set_children :: "OutlineNode \<Rightarrow> OutlineNode list option \<Rightarrow> OutlineNode" where
  "set_children (OutlineNode t ty d l c ch m i a) ch' = OutlineNode t ty d l c ch' m i a"

lemma size_children_less:
  "children node = Some cs \<Longrightarrow> node \<in> set nodes \<Longrightarrow>
     size_list size cs < size_list size nodes"
proof (induction nodes)
  case Nil
  then show ?case by simp
next
  case (Cons n ns)
  show ?case
  proof (cases "node = n")
    case True
    with Cons.prems(1) show ?thesis by (cases n) auto
  next
    case False
    with Cons show ?thesis by auto
  qed
qed

text \<open>
  \<open>filterByDepth\<close> of \<open>OutlineGenerator.ts\<close>. \<open>!maxDepth\<close> holds for the absent option
  and for \<open>0\<close>; the spread \<open>{...node, children: ...}\<close> copies every field and replaces
  \<open>children\<close>; an array, also the empty one, is truthy.
\<close>

function filterByDepth :: "OutlineNode list \<Rightarrow> int option \<Rightarrow> OutlineNode list" where
  "filterByDepth nodes maxDepth =
     (case maxDepth of
        None \<Rightarrow> nodes
      | Some d \<Rightarrow>
          if d = 0 then nodes
          else map (\<lambda>node. set_children node
                      (case children node of
                         Some cs \<Rightarrow> Some (filterByDepth cs maxDepth)
                       | None \<Rightarrow> None))
                 (filter (\<lambda>node. depth node \<le> d) nodes))"
  by pat_completeness auto
termination
  by (relation "measure (\<lambda>(nodes, _). size_list size nodes)")
     (auto simp: size_children_less)

lemma size_kids_less:
  "size_list size (case children n of None \<Rightarrow> [] | Some cs \<Rightarrow> cs) < size n"
  by (cases n) (auto split: option.splits)

text \<open>Every node of a forest, nested ones included, parents before their children.\<close>

function preorder :: "OutlineNode list \<Rightarrow> OutlineNode list" where
  "preorder [] = []"
| "preorder (n # ns) =
     n # preorder (case children n of None \<Rightarrow> [] | Some cs \<Rightarrow> cs) @ preorder ns"
  by pat_completeness auto
termination
  apply (relation "measure (size_list size)")
    apply simp
  subgoal for n ns using size_kids_less [of n] by simp
  apply simp
  done

section \<open>Depth filter\<close>

declare filterByDepth.simps [simp del]

lemma filterByDepth_None [simp]: "filterByDepth nodes None = nodes"
  by (simp add: filterByDepth.simps)

lemma filterByDepth_Some:
  "d \<noteq> 0 \<Longrightarrow> filterByDepth nodes (Some d) =
     map (\<lambda>node. set_children node
                      (case children node of
                         Some cs \<Rightarrow> Some (filterByDepth cs (Some d))
                       | None \<Rightarrow> None))
                 (filter (\<lambda>node. depth node \<le> d) nodes)"
  by (subst filterByDepth.simps) simp

lemma set_preorder:
  "set (preorder ns) =
     (\<Union>n \<in> set ns. insert n (set (preorder (case children n of None \<Rightarrow> [] | Some cs \<Rightarrow> cs))))"
  by (induction ns rule: preorder.induct) auto

lemma children_set_children [simp]: "children (set_children n ch) = ch"
  by (cases n) simp

lemma depth_set_children [simp]: "depth (set_children n ch) = depth n"
  by (cases n) simp

lemma filterByDepth_bound:
  "d \<noteq> 0 \<Longrightarrow> n \<in> set (preorder (filterByDepth nodes (Some d))) \<Longrightarrow> depth n \<le> d"
proof (induction nodes "Some d" arbitrary: n rule: filterByDepth.induct)
  case (1 nodes)
  from "1.prems"(2) obtain m where m: "m \<in> set (filterByDepth nodes (Some d))"
    and n: "n = m \<or> n \<in> set (preorder (case children m of None \<Rightarrow> [] | Some cs \<Rightarrow> cs))"
    by (subst (asm) set_preorder) blast
  from m "1.prems"(1) filterByDepth_Some [of d nodes]
  obtain node where node: "node \<in> set nodes" "depth node \<le> d"
    and m_def: "m = set_children node
          (case children node of Some cs \<Rightarrow> Some (filterByDepth cs (Some d)) | None \<Rightarrow> None)"
    by auto
  from n show ?case
  proof
    assume "n = m"
    with node m_def show ?thesis by simp
  next
    assume sub: "n \<in> set (preorder (case children m of None \<Rightarrow> [] | Some cs \<Rightarrow> cs))"
    show ?thesis
    proof (cases "children node")
      case None
      with sub m_def show ?thesis by simp
    next
      case (Some cs)
      with sub m_def have "n \<in> set (preorder (filterByDepth cs (Some d)))" by simp
      with "1.hyps" [OF refl "1.prems"(1) _ Some] node "1.prems"(1) show ?thesis by simp
    qed
  qed
qed

text \<open>
  C4. For a positive \<open>maxDepth = d\<close>, every node of \<open>filterByDepth forest d\<close>, nested
  nodes included, has \<open>depth \<le> d\<close>; with \<open>maxDepth\<close> absent the forest is returned
  unchanged.
\<close>

theorem filterByDepth_depth_bound_and_identity:
  "(0 < d \<longrightarrow> (\<forall>n \<in> set (preorder (filterByDepth forest (Some d))). depth n \<le> d))
   \<and> filterByDepth forest None = forest"
  using filterByDepth_bound [of d _ forest] by auto



theorem filterByDepth_depth_bound_and_identity_witness:
  "(0::int) < 1
   \<and> list_all (\<lambda>n. depth n \<le> 1)
        (preorder (filterByDepth
           [OutlineNode ''A'' ''heading'' 1 None None
              (Some [OutlineNode ''B'' ''heading'' 2 None None None None None None])
              None None None] (Some 1)))
   \<and> filterByDepth
        [OutlineNode ''A'' ''heading'' 1 None None
           (Some [OutlineNode ''B'' ''heading'' 2 None None None None None None])
           None None None] None
     = [OutlineNode ''A'' ''heading'' 1 None None
           (Some [OutlineNode ''B'' ''heading'' 2 None None None None None None])
           None None None]"
  using filterByDepth_depth_bound_and_identity
    [of 1 "[OutlineNode ''A'' ''heading'' 1 None None
              (Some [OutlineNode ''B'' ''heading'' 2 None None None None None None])
              None None None]"]
  by (simp add: list_all_iff)


section \<open>Node creation\<close>

text \<open>\<open>Position\<close> of \<open>types.ts\<close> and \<open>createNode\<close> of \<open>OutlineGenerator.ts\<close>.\<close>

record Position =
  pos_line :: int
  pos_column :: int

definition createNode ::
  "string \<Rightarrow> string \<Rightarrow> int \<Rightarrow> Position option \<Rightarrow> (string \<times> jsval) list option \<Rightarrow> OutlineNode" where
  "createNode title' type' depth' position metadata' =
     OutlineNode title' type' depth' 
       (case position of Some p \<Rightarrow> Some (pos_line p) | None \<Rightarrow> None)
       (case position of Some p \<Rightarrow> Some (pos_column p) | None \<Rightarrow> None)
       (Some [])
       metadata' None None"

section \<open>Registry\<close>

text \<open>
  \<open>DocumentOutlineGenerator\<close> of \<open>index.ts\<close>. An \<open>Error\<close> carries its message. A
  function that throws returns \<open>Inl\<close> of the error; a promise is the result it settles
  to, \<open>Inl\<close> when it rejects. A generator is its \<open>generate\<close> method.
\<close>

datatype error = Error (message: string)

text \<open>\<open>GeneratorOptions\<close> of \<open>types.ts\<close>; further keys are the rest of the record.\<close>

record GeneratorOptions =
  includeLineNumbers :: "bool option"
  maxDepth :: "int option"
  fileName :: "string option"
  includePrivate :: "bool option"
  includeComments :: "bool option"

type_synonym 'a promise = "error + 'a"

type_synonym generator = "string \<Rightarrow> GeneratorOptions \<Rightarrow> OutlineNode list promise"

text \<open>
  \<open>toLowerCase\<close> on code units below 256: the letters \<open>A\<close> to \<open>Z\<close> and the capital
  letters of Latin-1 move up by 32.
\<close>

definition toLowerCase_char :: "char \<Rightarrow> char" where
  "toLowerCase_char c =
     (let n = of_char c :: nat in
      if (65 \<le> n \<and> n \<le> 90) \<or> (192 \<le> n \<and> n \<le> 222 \<and> n \<noteq> 215)
      then char_of (n + 32) else c)"

definition toLowerCase :: "string \<Rightarrow> string" where
  "toLowerCase s = map toLowerCase_char s"

text \<open>
  The generator classes that \<open>registerDefaultGenerators\<close> instantiates, one generator
  for each; the registry is the map \<open>generators\<close> from extensions to generators.
\<close>

record generator_classes =
  MarkdownGenerator :: generator
  PeggyMarkdownGenerator :: generator
  JsonGenerator :: generator
  XmlGenerator :: generator
  YamlGenerator :: generator
  HtmlGenerator :: generator
  CsvGenerator :: generator
  PeggyCsvGenerator :: generator
  JavaScriptGenerator :: generator
  TypeScriptGenerator :: generator
  PythonGenerator :: generator
  JavaGenerator :: generator
  CSharpGenerator :: generator
  CppGenerator :: generator

definition registerDefaultGenerators ::
  "generator_classes \<Rightarrow> bool \<Rightarrow> (string \<rightharpoonup> generator) \<Rightarrow> (string \<rightharpoonup> generator)" where
  "registerDefaultGenerators G usePeggyGenerators generators =
     (let generators =
        (if usePeggyGenerators
         then generators(''md'' \<mapsto> PeggyMarkdownGenerator G,
                         ''markdown'' \<mapsto> PeggyMarkdownGenerator G,
                         ''csv'' \<mapsto> PeggyCsvGenerator G)
         else generators(''md'' \<mapsto> MarkdownGenerator G,
                         ''markdown'' \<mapsto> MarkdownGenerator G,
                         ''csv'' \<mapsto> CsvGenerator G))
      in generators(''json'' \<mapsto> JsonGenerator G,
                    ''xml'' \<mapsto> XmlGenerator G,
                    ''yaml'' \<mapsto> YamlGenerator G,
                    ''yml'' \<mapsto> YamlGenerator G,
                    ''html'' \<mapsto> HtmlGenerator G,
                    ''htm'' \<mapsto> HtmlGenerator G,
                    ''js'' \<mapsto> JavaScriptGenerator G,
                    ''jsx'' \<mapsto> JavaScriptGenerator G,
                    ''ts'' \<mapsto> TypeScriptGenerator G,
                    ''tsx'' \<mapsto> TypeScriptGenerator G,
                    ''py'' \<mapsto> PythonGenerator G,
                    ''java'' \<mapsto> JavaGenerator G,
                    ''cs'' \<mapsto> CSharpGenerator G,
                    ''cpp'' \<mapsto> CppGenerator G))"

definition registerGenerator ::
  "string \<Rightarrow> generator \<Rightarrow> (string \<rightharpoonup> generator) \<Rightarrow> (string \<rightharpoonup> generator)" where
  "registerGenerator extension g generators = generators(toLowerCase extension \<mapsto> g)"

definition isSupported :: "(string \<rightharpoonup> generator) \<Rightarrow> string \<Rightarrow> bool" where
  "isSupported generators fileExtension = (generators (toLowerCase fileExtension) \<noteq> None)"

definition generateFromContent ::
  "(string \<rightharpoonup> generator) \<Rightarrow> string \<Rightarrow> string \<Rightarrow> GeneratorOptions
     \<Rightarrow> error + OutlineNode list promise" where
  "generateFromContent generators content fileExtension options =
     (case generators (toLowerCase fileExtension) of
        None \<Rightarrow> Inl (Error (''No generator found for file extension: '' @ fileExtension))
      | Some g \<Rightarrow> Inr (g content options))"

lemma toLowerCase_xyz: "toLowerCase ''xyz'' = ''xyz''"
  by (simp add: toLowerCase_def toLowerCase_char_def)

lemma xyz_unregistered: "\<not> isSupported (registerDefaultGenerators G p Map.empty) ''xyz''"
  by (simp add: isSupported_def registerDefaultGenerators_def toLowerCase_xyz Let_def)

text \<open>
  C9. When no generator is registered for the discriminator, \<open>generateFromContent\<close>
  throws before any promise exists (the outer \<open>Inl\<close>), the message of the error
  contains the discriminator as given, and no forest is returned; for \<open>xyz\<close> and the
  default registry the message names \<open>xyz\<close>.
\<close>

theorem unsupported_extension_throws:
  "(\<not> isSupported generators fileExtension \<longrightarrow>
      (\<exists>msg. generateFromContent generators content fileExtension options = Inl (Error msg)
             \<and> sublist fileExtension msg))
   \<and> generateFromContent (registerDefaultGenerators G p Map.empty) content ''xyz'' options
       = Inl (Error ''No generator found for file extension: xyz'')"
proof (intro conjI impI)
  assume "\<not> isSupported generators fileExtension"
  then have "generateFromContent generators content fileExtension options
      = Inl (Error (''No generator found for file extension: '' @ fileExtension))"
    by (simp add: isSupported_def generateFromContent_def)
  moreover have "sublist fileExtension (''No generator found for file extension: '' @ fileExtension)"
    by (rule suffix_imp_sublist) (rule suffixI, rule refl)
  ultimately show "\<exists>msg. generateFromContent generators content fileExtension options = Inl (Error msg)
             \<and> sublist fileExtension msg" by blast
next
  from xyz_unregistered [of G p]
  show "generateFromContent (registerDefaultGenerators G p Map.empty) content ''xyz'' options
       = Inl (Error ''No generator found for file extension: xyz'')"
    by (simp add: isSupported_def generateFromContent_def toLowerCase_xyz)
qed

theorem unsupported_extension_throws_witness:
  "\<not> isSupported Map.empty ''xyz''
   \<and> (\<exists>msg. generateFromContent Map.empty ''content'' ''xyz''
               \<lparr>includeLineNumbers = None, maxDepth = None, fileName = None,
                includePrivate = None, includeComments = None\<rparr> = Inl (Error msg)
            \<and> sublist ''xyz'' msg)"
  using unsupported_extension_throws [of Map.empty "''xyz''" "''content''"
      "\<lparr>includeLineNumbers = None, maxDepth = None, fileName = None,
        includePrivate = None, includeComments = None\<rparr>"]
  by (simp add: isSupported_def)


section \<open>Hierarchy assembly\<close>

text \<open>
  \<open>buildHierarchy\<close> of \<open>OutlineGenerator.ts\<close> works on node objects by reference: the
  stack and the result hold the very objects of the input array, and
  \<open>parent.children.push(node)\<close> changes an object that is already part of the result.
  The model keeps the heap explicit. An object is a reference; the field \<open>depth\<close>, which
  the function only reads, is a function \<open>dep\<close> from references to integers, and the
  field \<open>children\<close>, which it writes, is a map \<open>ch\<close> from references to arrays of
  references, \<open>None\<close> where the field is absent. The other fields are not touched.
\<close>

type_synonym ref = nat

text \<open>The children of an object, none when the field is absent.\<close>

definition kids :: "(ref \<rightharpoonup> ref list) \<Rightarrow> ref \<Rightarrow> ref list" where
  "kids ch r = (case ch r of None \<Rightarrow> [] | Some cs \<Rightarrow> cs)"

text \<open>
  The \<open>while\<close> loop that pops the stack. The top of the stack is the head of the list.
\<close>

fun pop_stack :: "(ref \<Rightarrow> int) \<Rightarrow> ref list \<Rightarrow> int \<Rightarrow> ref list" where
  "pop_stack dep [] d = []"
| "pop_stack dep (tp # stack) d =
     (if dep tp \<ge> d then pop_stack dep stack d else tp # stack)"

text \<open>
  \<open>if (!parent.children) parent.children = []; parent.children.push(node)\<close>: an array,
  also an empty one, is truthy.
\<close>

definition push_child :: "(ref \<rightharpoonup> ref list) \<Rightarrow> ref \<Rightarrow> ref \<Rightarrow> (ref \<rightharpoonup> ref list)" where
  "push_child ch parent node =
     (let ch1 = (if ch parent = None then ch(parent \<mapsto> []) else ch)
      in ch1(parent \<mapsto> kids ch1 parent @ [node]))"

text \<open>The \<open>for\<close> loop over the input array, with the heap, the result and the stack.\<close>

fun buildHierarchy_loop ::
  "(ref \<Rightarrow> int) \<Rightarrow> (ref \<rightharpoonup> ref list) \<times> ref list \<times> ref list \<Rightarrow> ref list
     \<Rightarrow> (ref \<rightharpoonup> ref list) \<times> ref list \<times> ref list" where
  "buildHierarchy_loop dep (ch, result, stack) [] = (ch, result, stack)"
| "buildHierarchy_loop dep (ch, result, stack) (node # nodes) =
     (case pop_stack dep stack (dep node) of
        [] \<Rightarrow> buildHierarchy_loop dep (ch, result @ [node], [node]) nodes
      | parent # rest \<Rightarrow>
          buildHierarchy_loop dep (push_child ch parent node, result, node # parent # rest) nodes)"

definition buildHierarchy ::
  "(ref \<Rightarrow> int) \<Rightarrow> (ref \<rightharpoonup> ref list) \<Rightarrow> ref list \<Rightarrow> (ref \<rightharpoonup> ref list) \<times> ref list" where
  "buildHierarchy dep ch nodes =
     (case buildHierarchy_loop dep (ch, [], []) nodes of (ch', result, stack) \<Rightarrow> (ch', result))"

text \<open>
  The depth-stack rule in the words of the specification, on forests as values: a tree
  is an item with the list of its subtrees. Items are told apart by their reference.
\<close>

datatype rtree = RNode (root: ref) (sub: "rtree list")

text \<open>Append item \<open>n\<close> as the last child of item \<open>p\<close> of the forest.\<close>

fun add_child :: "ref \<Rightarrow> ref \<Rightarrow> rtree list \<Rightarrow> rtree list" where
  "add_child p n [] = []"
| "add_child p n (RNode r ts # fs) =
     (if r = p then RNode r (ts @ [RNode n []]) else RNode r (add_child p n ts))
     # add_child p n fs"

text \<open>
  One item: pop the stack while its top has depth \<open>\<ge>\<close> the item's; if the stack is
  then empty the item is a new root, otherwise it becomes the last child of the top; push
  the item.
\<close>

definition stack_rule_step ::
  "(ref \<Rightarrow> int) \<Rightarrow> rtree list \<times> ref list \<Rightarrow> ref \<Rightarrow> rtree list \<times> ref list" where
  "stack_rule_step dep = (\<lambda>(forest, stack) item.
     let stack' = dropWhile (\<lambda>tp. dep tp \<ge> dep item) stack
     in (case stack' of
           [] \<Rightarrow> forest @ [RNode item []]
         | tp # _ \<Rightarrow> add_child tp item forest,
         item # stack'))"

definition depth_stack_rule :: "(ref \<Rightarrow> int) \<Rightarrow> ref list \<Rightarrow> rtree list" where
  "depth_stack_rule dep items = fst (foldl (stack_rule_step dep) ([], []) items)"

text \<open>All subtrees of a forest in pre-order, and the items at their roots.\<close>

fun subtrees :: "rtree list \<Rightarrow> rtree list" where
  "subtrees [] = []"
| "subtrees (RNode r ts # fs) = RNode r ts # subtrees ts @ subtrees fs"

definition labels :: "rtree list \<Rightarrow> ref list" where
  "labels forest = map root (subtrees forest)"

text \<open>
  The heap holds the forest: the array \<open>result\<close> lists the roots, and the
  \<open>children\<close> array of every item of the forest lists the roots of its subtrees.
\<close>

fun consistent :: "(ref \<rightharpoonup> ref list) \<Rightarrow> rtree list \<Rightarrow> bool" where
  "consistent ch [] = True"
| "consistent ch (RNode r ts # fs) =
     (kids ch r = map root ts \<and> consistent ch ts \<and> consistent ch fs)"

definition represents :: "(ref \<rightharpoonup> ref list) \<Rightarrow> ref list \<Rightarrow> rtree list \<Rightarrow> bool" where
  "represents ch result forest \<longleftrightarrow> result = map root forest \<and> consistent ch forest"

text \<open>
  Pre-order traversal of the heap from an array of references, one unit of fuel per
  visited object; \<open>None\<close> when the fuel runs out.
\<close>

fun heap_preorder :: "nat \<Rightarrow> (ref \<rightharpoonup> ref list) \<Rightarrow> ref list \<Rightarrow> ref list option" where
  "heap_preorder fuel ch [] = Some []"
| "heap_preorder 0 ch (r # rs) = None"
| "heap_preorder (Suc fuel) ch (r # rs) =
     (case heap_preorder fuel ch (kids ch r @ rs) of
        None \<Rightarrow> None
      | Some visited \<Rightarrow> Some (r # visited))"

text \<open>The rightmost path of a forest: the last root, its last child, and so on.\<close>

fun spine :: "rtree list \<Rightarrow> ref list" where
  "spine [] = []"
| "spine (RNode r ts # fs) = (if fs = [] then r # spine ts else spine fs)"

lemma pop_stack_dropWhile: "pop_stack dep stack d = dropWhile (\<lambda>tp. dep tp \<ge> d) stack"
  by (induction stack) auto

lemma subtrees_append: "subtrees (a @ b) = subtrees a @ subtrees b"
  by (induction a rule: subtrees.induct) auto

lemma labels_simps [simp]:
  "labels [] = []"
  "labels (RNode r ts # fs) = r # labels ts @ labels fs"
  "labels (a @ b) = labels a @ labels b"
  by (simp_all add: labels_def subtrees_append)

lemma consistent_append: "consistent ch (a @ b) \<longleftrightarrow> consistent ch a \<and> consistent ch b"
  by (induction a rule: consistent.induct) auto

lemma add_child_roots: "map root (add_child p n F) = map root F"
  by (induction p n F rule: add_child.induct) auto

lemma add_child_absent: "p \<notin> set (labels F) \<Longrightarrow> add_child p n F = F"
  by (induction p n F rule: add_child.induct) auto

lemma spine_subset: "set (spine F) \<subseteq> set (labels F)"
  by (induction F rule: spine.induct) auto

lemma labels_add_child:
  "distinct (labels F) \<Longrightarrow> p \<in> set (spine F) \<Longrightarrow> labels (add_child p n F) = labels F @ [n]"
proof (induction p n F rule: add_child.induct)
  case (1 p n)
  then show ?case by simp
next
  case (2 p n r ts fs)
  show ?case
  proof (cases "fs = []")
    case True
    with 2 show ?thesis by (auto split: if_splits)
  next
    case False
    with "2.prems" have p: "p \<in> set (spine fs)" by simp
    with spine_subset have pl: "p \<in> set (labels fs)" by blast
    with "2.prems"(1) have "p \<noteq> r" "p \<notin> set (labels ts)" by auto
    with 2 p show ?thesis by (simp add: add_child_absent)
  qed
qed

lemma spine_append: "spine (a @ b) = (if b = [] then spine a else spine b)"
  by (induction a rule: spine.induct) auto

lemma spine_add_child:
  "distinct (labels F) \<Longrightarrow> p \<in> set (spine F) \<Longrightarrow>
     spine (add_child p n F) = takeWhile (\<lambda>x. x \<noteq> p) (spine F) @ [p, n]"
proof (induction p n F rule: add_child.induct)
  case (1 p n)
  then show ?case by simp
next
  case (2 p n r ts fs)
  show ?case
  proof (cases "fs = []")
    case True
    with 2 spine_subset [of ts] show ?thesis by (auto simp: spine_append split: if_splits)
  next
    case False
    with "2.prems" have p: "p \<in> set (spine fs)" by simp
    with spine_subset have pl: "p \<in> set (labels fs)" by blast
    with "2.prems"(1) have "p \<noteq> r" "p \<notin> set (labels ts)" by auto
    moreover from False have "add_child p n fs \<noteq> []"
      by (metis add_child_roots map_is_Nil_conv)
    ultimately show ?thesis using 2 p False by (simp add: add_child_absent)
  qed
qed

lemma consistent_frame:
  "p \<notin> set (labels F) \<Longrightarrow> consistent (ch(p := x)) F = consistent ch F"
  by (induction ch F rule: consistent.induct) (auto simp: kids_def)

lemma kids_push_child:
  "kids (push_child ch p n) r = (if r = p then kids ch p @ [n] else kids ch r)"
  by (auto simp: push_child_def kids_def Let_def split: option.splits)

lemma push_child_upd: "push_child ch p n = ch(p \<mapsto> kids ch p @ [n])"
  by (auto simp: push_child_def kids_def Let_def split: option.splits)

lemma consistent_add_child:
  "distinct (labels F) \<Longrightarrow> p \<in> set (labels F) \<Longrightarrow> n \<notin> set (labels F) \<Longrightarrow>
   kids ch n = [] \<Longrightarrow> consistent ch F \<Longrightarrow>
   consistent (push_child ch p n) (add_child p n F)"
proof (induction p n F rule: add_child.induct)
  case (1 p n)
  then show ?case by simp
next
  case (2 p n r ts fs)
  show ?case
  proof (cases "r = p")
    case True
    with "2.prems" have "p \<notin> set (labels ts)" "p \<notin> set (labels fs)" "n \<noteq> p" by auto
    with "2.prems" True show ?thesis
      by (simp add: add_child_absent consistent_append kids_push_child)
         (simp add: push_child_upd consistent_frame)
  next
    case False
    show ?thesis
    proof (cases "p \<in> set (labels ts)")
      case True
      with "2.prems" have "p \<notin> set (labels fs)" by auto
      with "2.prems" True False "2.IH"(1) show ?thesis
        by (simp add: add_child_absent kids_push_child add_child_roots)
           (simp add: push_child_upd consistent_frame)
    next
      case nts: False
      with "2.prems" False have "p \<in> set (labels fs)" by auto
      with "2.prems" nts False "2.IH"(2) show ?thesis
        by (simp add: add_child_absent kids_push_child add_child_roots)
           (simp add: push_child_upd consistent_frame)
    qed
  qed
qed


lemma distinct_spine: "distinct (labels F) \<Longrightarrow> distinct (spine F)"
proof (induction F rule: spine.induct)
  case 1
  then show ?case by simp
next
  case (2 r ts fs)
  with spine_subset [of ts] show ?case by (auto split: if_splits)
qed

lemma takeWhile_rev_stack:
  assumes "distinct (xs @ p # ys)"
  shows "takeWhile (\<lambda>x. x \<noteq> p) (rev ys @ p # rev xs) = rev ys"
  using assms by (simp add: takeWhile_append)

lemma loop_invariant:
  "distinct (done @ todo) \<Longrightarrow> \<forall>n \<in> set todo. kids ch n = [] \<Longrightarrow>
   labels F = done \<Longrightarrow> consistent ch F \<Longrightarrow> result = map root F \<Longrightarrow> stack = rev (spine F) \<Longrightarrow>
   buildHierarchy_loop dep (ch, result, stack) todo = (ch', result', stack') \<Longrightarrow>
   foldl (stack_rule_step dep) (F, stack) todo = (F', S') \<Longrightarrow>
   result' = map root F' \<and> consistent ch' F' \<and> labels F' = done @ todo \<and> stack' = S'"
proof (induction todo arbitrary: ch result stack F "done")
  case Nil
  then show ?case by simp
next
  case (Cons n todo)
  let ?st = "dropWhile (\<lambda>tp. dep tp \<ge> dep n) stack"
  from Cons.prems(1) have n_new: "n \<notin> set done" and dist': "distinct ((done @ [n]) @ todo)"
    by auto
  from Cons.prems(2) have kn: "kids ch n = []" by simp
  show ?case
  proof (cases ?st)
    case Nil
    let ?F1 = "F @ [RNode n []]"
    have step: "stack_rule_step dep (F, stack) n = (?F1, [n])"
      using Nil by (simp add: stack_rule_step_def Let_def del: dropWhile_eq_Nil_conv)
    have 1: "\<forall>m \<in> set todo. kids ch m = []" using Cons.prems(2) by simp
    have 2: "labels ?F1 = done @ [n]" using Cons.prems(3) by simp
    have 3: "consistent ch ?F1" using Cons.prems(4) kn by (simp add: consistent_append)
    have 4: "result @ [n] = map root ?F1" using Cons.prems(5) by simp
    have 5: "[n] = rev (spine ?F1)" by (simp add: spine_append)
    have 6: "buildHierarchy_loop dep (ch, result @ [n], [n]) todo = (ch', result', stack')"
      using Cons.prems(7) Nil by (simp add: pop_stack_dropWhile del: dropWhile_eq_Nil_conv)
    have 7: "foldl (stack_rule_step dep) (?F1, [n]) todo = (F', S')"
      using Cons.prems(8) step by simp
    from Cons.IH [OF dist' 1 2 3 4 5 6 7] show ?thesis by simp
  next
    case (Cons p rest)
    let ?F1 = "add_child p n F"
    let ?ch1 = "push_child ch p n"
    have step: "stack_rule_step dep (F, stack) n = (?F1, n # p # rest)"
      using Cons by (simp add: stack_rule_step_def Let_def)
    obtain pre where stack_eq: "stack = pre @ p # rest"
      using Cons by (metis takeWhile_dropWhile_id)
    have dl: "distinct (labels F)" using Cons.prems(1,3) by simp
    have p_spine: "p \<in> set (spine F)"
      using stack_eq Cons.prems(6) by (metis in_set_conv_decomp set_rev)
    then have p_lab: "p \<in> set (labels F)" using spine_subset by blast
    have n_lab: "n \<notin> set (labels F)" using n_new Cons.prems(3) by simp
    have np: "n \<noteq> p" using p_lab n_lab by auto
    have spine_eq: "spine F = rev rest @ p # rev pre"
      using stack_eq Cons.prems(6) by (metis rev_append rev_rev_ident rev.simps(2) append.assoc append_Cons append_Nil)
    have dsp: "distinct (pre @ p # rest)"
      using distinct_spine [OF dl] Cons.prems(6) stack_eq by (metis distinct_rev)
    have 1: "\<forall>m \<in> set todo. kids ?ch1 m = []"
    proof
      fix m assume m: "m \<in> set todo"
      with Cons.prems(1) have "m \<notin> set done" by auto
      with p_lab Cons.prems(3) have "m \<noteq> p" by auto
      with m Cons.prems(2) show "kids ?ch1 m = []" by (simp add: kids_push_child)
    qed
    have 2: "labels ?F1 = done @ [n]"
      using labels_add_child [OF dl p_spine] Cons.prems(3) by simp
    have 3: "consistent ?ch1 ?F1"
      using consistent_add_child [OF dl p_lab n_lab kn Cons.prems(4)] .
    have 4: "result = map root ?F1" using Cons.prems(5) by (simp add: add_child_roots)
    have 5: "n # p # rest = rev (spine ?F1)"
      using spine_add_child [OF dl p_spine, of n] spine_eq takeWhile_rev_stack [OF dsp]
      by simp
    have 6: "buildHierarchy_loop dep (?ch1, result, n # p # rest) todo = (ch', result', stack')"
      using Cons.prems(7) Cons by (simp add: pop_stack_dropWhile)
    have 7: "foldl (stack_rule_step dep) (?F1, n # p # rest) todo = (F', S')"
      using Cons.prems(8) step by simp
    from Cons.IH [OF dist' 1 2 3 4 5 6 7] show ?thesis by simp
  qed
qed


lemma labels_Nil_iff: "labels F = [] \<longleftrightarrow> F = []"
  by (cases F rule: subtrees.cases) auto

lemma heap_preorder_consistent:
  "consistent ch F \<Longrightarrow> length (labels F) \<le> fuel \<Longrightarrow>
     heap_preorder fuel ch (map root F) = Some (labels F)"
proof (induction fuel arbitrary: F)
  case 0
  then show ?case by (simp add: labels_Nil_iff)
next
  case (Suc fuel)
  show ?case
  proof (cases F rule: subtrees.cases)
    case 1
    then show ?thesis by simp
  next
    case (2 r ts fs)
    with Suc.prems have "consistent ch (ts @ fs)" "length (labels (ts @ fs)) \<le> fuel"
      and k: "kids ch r = map root ts"
      by (simp_all add: consistent_append)
    from Suc.IH [OF this(1,2)] k 2 show ?thesis by simp
  qed
qed

lemma buildHierarchy_correct:
  assumes "distinct nodes" and "\<forall>n \<in> set nodes. kids ch n = []"
    and "buildHierarchy dep ch nodes = (ch', result)"
  shows "represents ch' result (depth_stack_rule dep nodes)
       \<and> labels (depth_stack_rule dep nodes) = nodes"
proof -
  obtain stack' where loop: "buildHierarchy_loop dep (ch, [], []) nodes = (ch', result, stack')"
    using assms(3) by (auto simp: buildHierarchy_def split: prod.splits)
  obtain F' S' where rule: "foldl (stack_rule_step dep) ([], []) nodes = (F', S')"
    by (cases "foldl (stack_rule_step dep) ([], []) nodes") auto
  from loop_invariant [of "[]" nodes ch "[]" "[]" "[]" dep ch' result stack' F' S']
    assms(1,2) loop rule
  have "result = map root F' \<and> consistent ch' F' \<and> labels F' = nodes" by simp
  with rule show ?thesis by (simp add: represents_def depth_stack_rule_def)
qed

lemma depth_stack_rule_example:
  "depth_stack_rule (\<lambda>r. if r = 0 \<or> r = 3 then 1 else 2) [0, 1, 2, 3]
     = [RNode 0 [RNode 1 [], RNode 2 []], RNode 3 []]"
  by (simp add: depth_stack_rule_def stack_rule_step_def)

lemma buildHierarchy_example:
  "(case buildHierarchy (\<lambda>r. if r = 0 \<or> r = 3 then 1 else 2) (\<lambda>r. Some []) [0, 1, 2, 3] of
      (ch', result) \<Rightarrow>
        result = [0, 3] \<and> map ch' [0, 1, 2, 3] = [Some [1, 2], Some [], Some [], Some []])"
  by (simp add: buildHierarchy_def push_child_def kids_def)

text \<open>
  C1. For a flat sequence of distinct node objects (none has children yet),
  \<open>buildHierarchy\<close> leaves on the heap exactly the forest that the depth-stack rule
  builds as a value: the returned array lists its roots and every node's \<open>children\<close>
  array lists the roots of its subtrees. For the depths \<open>1, 2, 2, 1\<close> of the nodes
  \<open>A, B, C, D\<close> (the references \<open>0, 1, 2, 3\<close>) the forest is \<open>[A{children: [B, C]}, D]\<close>.
\<close>

theorem buildHierarchy_depth_stack_rule:
  "(distinct nodes \<and> (\<forall>n \<in> set nodes. kids ch n = []) \<longrightarrow>
      (case buildHierarchy dep ch nodes of
         (ch', result) \<Rightarrow> represents ch' result (depth_stack_rule dep nodes)))
   \<and> depth_stack_rule (\<lambda>r. if r = 0 \<or> r = 3 then 1 else 2) [0, 1, 2, 3]
       = [RNode 0 [RNode 1 [], RNode 2 []], RNode 3 []]
   \<and> (case buildHierarchy (\<lambda>r. if r = 0 \<or> r = 3 then 1 else 2) (\<lambda>r. Some []) [0, 1, 2, 3] of
        (ch', result) \<Rightarrow>
          result = [0, 3] \<and> map ch' [0, 1, 2, 3] = [Some [1, 2], Some [], Some [], Some []])"
  using buildHierarchy_correct [of nodes ch dep] depth_stack_rule_example buildHierarchy_example
  by (auto split: prod.splits)

theorem buildHierarchy_depth_stack_rule_witness:
  "distinct [0, 1, 2, 3 :: nat]
   \<and> list_all (\<lambda>n. kids (\<lambda>r. Some []) n = []) [0, 1, 2, 3]
   \<and> (case buildHierarchy (\<lambda>r. if r = 0 \<or> r = 3 then 1 else 2) (\<lambda>r. Some []) [0, 1, 2, 3] of
        (ch', result) \<Rightarrow>
          represents ch' result [RNode 0 [RNode 1 [], RNode 2 []], RNode 3 []])"
  using buildHierarchy_depth_stack_rule
    [of "[0, 1, 2, 3]" "\<lambda>r. Some []" "\<lambda>r. if r = 0 \<or> r = 3 then 1 else 2"]
  by (auto simp: kids_def split: prod.splits)

text \<open>
  C2. For a flat sequence of distinct node objects, the pre-order traversal of the forest
  that \<open>buildHierarchy\<close> leaves on the heap (roots in order, each node before its
  \<open>children\<close>, children in order) visits exactly the input sequence; the traversal ends
  with any fuel of at least the number of nodes.
\<close>

theorem buildHierarchy_preorder:
  "distinct nodes \<and> (\<forall>n \<in> set nodes. kids ch n = []) \<and> length nodes \<le> fuel \<longrightarrow>
     (case buildHierarchy dep ch nodes of
        (ch', result) \<Rightarrow> heap_preorder fuel ch' result = Some nodes)"
proof (intro impI, elim conjE)
  assume a: "distinct nodes" "\<forall>n \<in> set nodes. kids ch n = []" "length nodes \<le> fuel"
  obtain ch' result where b: "buildHierarchy dep ch nodes = (ch', result)"
    by (cases "buildHierarchy dep ch nodes") auto
  from buildHierarchy_correct [OF a(1,2) b]
  have "result = map root (depth_stack_rule dep nodes)"
    "consistent ch' (depth_stack_rule dep nodes)" "labels (depth_stack_rule dep nodes) = nodes"
    by (simp_all add: represents_def)
  with heap_preorder_consistent [of ch' "depth_stack_rule dep nodes" fuel] a(3) b
  show "case buildHierarchy dep ch nodes of
        (ch', result) \<Rightarrow> heap_preorder fuel ch' result = Some nodes" by simp
qed

theorem buildHierarchy_preorder_witness:
  "distinct [0, 1, 2, 3 :: nat]
   \<and> list_all (\<lambda>n. kids (\<lambda>r. Some []) n = []) [0, 1, 2, 3]
   \<and> length [0, 1, 2, 3 :: nat] \<le> 4
   \<and> (case buildHierarchy (\<lambda>r. if r = 0 \<or> r = 3 then 1 else 2) (\<lambda>r. Some []) [0, 1, 2, 3] of
        (ch', result) \<Rightarrow> heap_preorder 4 ch' result = Some [0, 1, 2, 3])"
  using buildHierarchy_preorder
    [of "[0, 1, 2, 3]" "\<lambda>r. Some []" 4 "\<lambda>r. if r = 0 \<or> r = 3 then 1 else 2"]
  by (simp add: kids_def)


text \<open>
  C3. A node without descendants is to have \<open>children\<close> absent. The code does
  otherwise: \<open>createNode\<close> gives every node the empty array, and \<open>filterByDepth\<close>
  maps a node all of whose children are pruned to one whose \<open>children\<close> is the empty
  array, since the empty array is truthy. So for the four headings of levels \<open>1\<close> to
  \<open>4\<close> and \<open>maxDepth = 2\<close> the Markdown generator filters the created nodes down to
  two, both with the empty array, and \<open>buildHierarchy\<close> returns the first with the
  second as its only child, whose \<open>children\<close> is still the empty array.
\<close>

theorem children_empty_not_absent:
  "children (createNode t ty d p m) = Some []
   \<and> filterByDepth
        [OutlineNode ''A'' ''heading'' 1 None None
           (Some [OutlineNode ''B'' ''heading'' 2 None None None None None None])
           None None None] (Some 1)
      = [OutlineNode ''A'' ''heading'' 1 None None (Some []) None None None]
   \<and> map (\<lambda>node. (title node, depth node, children node))
        (filterByDepth
           [createNode ''Level 1'' ''heading'' 1 None None,
            createNode ''Level 2'' ''heading'' 2 None None,
            createNode ''Level 3'' ''heading'' 3 None None,
            createNode ''Level 4'' ''heading'' 4 None None] (Some 2))
      = [(''Level 1'', 1, Some []), (''Level 2'', 2, Some [])]
   \<and> (case buildHierarchy (\<lambda>r. if r = 0 then 1 else 2) (\<lambda>r. Some []) [0, 1] of
        (ch', result) \<Rightarrow> result = [0] \<and> ch' 0 = Some [1] \<and> ch' 1 = Some [])"
  by (simp add: filterByDepth_Some createNode_def buildHierarchy_def push_child_def kids_def)

section \<open>Strings and patterns of the platform\<close>

text \<open>
  A string is a list of code units below 256 (\<open>char\<close>), read as Latin-1; \<open>length\<close> is
  the \<open>length\<close> of the source. The white space of \<open>trim\<close>, of \<open>\s\<close> and of
  \<open>Number\<close> in that range: tab, line feed, vertical tab, form feed, carriage return,
  space and no-break space.
\<close>

definition whitespace :: "char \<Rightarrow> bool" where
  "whitespace c \<longleftrightarrow> of_char c \<in> {9, 10, 11, 12, 13, 32, 160 :: nat}"

definition trim :: "string \<Rightarrow> string" where
  "trim s = rev (dropWhile whitespace (rev (dropWhile whitespace s)))"

text \<open>The classes \<open>[0-9]\<close> and \<open>[a-zA-Z]\<close>.\<close>

definition digit :: "char \<Rightarrow> bool" where
  "digit c \<longleftrightarrow> 48 \<le> (of_char c :: nat) \<and> (of_char c :: nat) \<le> 57"

definition letter :: "char \<Rightarrow> bool" where
  "letter c \<longleftrightarrow> (let n = of_char c :: nat in (65 \<le> n \<and> n \<le> 90) \<or> (97 \<le> n \<and> n \<le> 122))"

text \<open>
  Regular expressions over character classes, matched with derivatives. \<open>matches\<close> is
  \<open>test\<close> for a pattern between \<open>^\<close> and \<open>$\<close>, \<open>found\<close> is \<open>test\<close> for a pattern
  without anchors.
\<close>

datatype rexp =
    RNone
  | REmpty
  | RClass "char \<Rightarrow> bool"
  | RAlt rexp rexp
  | RSeq rexp rexp
  | RStar rexp

fun nullable :: "rexp \<Rightarrow> bool" where
  "nullable RNone = False"
| "nullable REmpty = True"
| "nullable (RClass P) = False"
| "nullable (RAlt r s) = (nullable r \<or> nullable s)"
| "nullable (RSeq r s) = (nullable r \<and> nullable s)"
| "nullable (RStar r) = True"

text \<open>Alternative and sequence that drop what cannot match any more.\<close>

fun alt :: "rexp \<Rightarrow> rexp \<Rightarrow> rexp" where
  "alt RNone r = r"
| "alt r RNone = r"
| "alt r s = RAlt r s"

fun seq :: "rexp \<Rightarrow> rexp \<Rightarrow> rexp" where
  "seq RNone r = RNone"
| "seq r RNone = RNone"
| "seq REmpty r = r"
| "seq r s = RSeq r s"

fun deriv :: "char \<Rightarrow> rexp \<Rightarrow> rexp" where
  "deriv c RNone = RNone"
| "deriv c REmpty = RNone"
| "deriv c (RClass P) = (if P c then REmpty else RNone)"
| "deriv c (RAlt r s) = alt (deriv c r) (deriv c s)"
| "deriv c (RSeq r s) =
     (if nullable r then alt (seq (deriv c r) s) (deriv c s) else seq (deriv c r) s)"
| "deriv c (RStar r) = seq (deriv c r) (RStar r)"

fun matches :: "rexp \<Rightarrow> string \<Rightarrow> bool" where
  "matches r [] = nullable r"
| "matches r (c # cs) = matches (deriv c r) cs"

text \<open>
  One character, one or more repetitions, an optional part, a sequence of parts, a
  literal string, exactly \<open>n\<close> and at most \<open>n\<close> repetitions.
\<close>

definition RChar :: "char \<Rightarrow> rexp" where
  "RChar c = RClass (\<lambda>x. x = c)"

definition RPlus :: "rexp \<Rightarrow> rexp" where
  "RPlus r = RSeq r (RStar r)"

definition ROpt :: "rexp \<Rightarrow> rexp" where
  "ROpt r = RAlt REmpty r"

fun RSeqs :: "rexp list \<Rightarrow> rexp" where
  "RSeqs [] = REmpty"
| "RSeqs [r] = r"
| "RSeqs (r # rs) = RSeq r (RSeqs rs)"

definition RStr :: "string \<Rightarrow> rexp" where
  "RStr s = RSeqs (map RChar s)"

fun RTimes :: "nat \<Rightarrow> rexp \<Rightarrow> rexp" where
  "RTimes 0 r = REmpty"
| "RTimes (Suc n) r = RSeq r (RTimes n r)"


definition found :: "rexp \<Rightarrow> string \<Rightarrow> bool" where
  "found r s = matches (RSeqs [RStar (RClass (\<lambda>_. True)), r, RStar (RClass (\<lambda>_. True))]) s"

text \<open>
  \<open>isNaN(Number(s))\<close> for a string: \<open>Number\<close> is not \<open>NaN\<close> exactly on the
  \<open>StringNumericLiteral\<close>s of the language: optional white space around nothing (the
  value \<open>0\<close>), a signed decimal literal (\<open>Infinity\<close>, digits with an optional fraction and
  exponent, or a fraction starting with the point) or an unsigned binary, octal or
  hexadecimal integer literal.
\<close>

definition StrDecimalLiteral :: rexp where
  "StrDecimalLiteral =
     (let digits = RPlus (RClass digit);
          exponent = ROpt (RSeqs [RClass (\<lambda>c. c = CHR ''e'' \<or> c = CHR ''E''),
                                  ROpt (RClass (\<lambda>c. c = CHR ''+'' \<or> c = CHR ''-'')), digits])
      in RSeq (ROpt (RClass (\<lambda>c. c = CHR ''+'' \<or> c = CHR ''-'')))
           (RAlt (RStr ''Infinity'')
             (RAlt (RSeqs [digits, ROpt (RSeq (RChar CHR ''.'') (RStar (RClass digit))), exponent])
                   (RSeqs [RChar CHR ''.'', digits, exponent]))))"

definition NonDecimalIntegerLiteral :: rexp where
  "NonDecimalIntegerLiteral =
     RSeq (RChar CHR ''0'')
       (RAlt (RSeq (RClass (\<lambda>c. c = CHR ''b'' \<or> c = CHR ''B''))
                (RPlus (RClass (\<lambda>c. c = CHR ''0'' \<or> c = CHR ''1''))))
       (RAlt (RSeq (RClass (\<lambda>c. c = CHR ''o'' \<or> c = CHR ''O''))
                (RPlus (RClass (\<lambda>c. 48 \<le> (of_char c :: nat) \<and> (of_char c :: nat) \<le> 55))))
             (RSeq (RClass (\<lambda>c. c = CHR ''x'' \<or> c = CHR ''X''))
                (RPlus (RClass (\<lambda>c. digit c \<or> (let n = of_char c :: nat in
                          (65 \<le> n \<and> n \<le> 70) \<or> (97 \<le> n \<and> n \<le> 102))))))))"

definition Number_isNaN :: "string \<Rightarrow> bool" where
  "Number_isNaN s \<longleftrightarrow>
     \<not> matches (RSeqs [RStar (RClass whitespace),
                       ROpt (RAlt StrDecimalLiteral NonDecimalIntegerLiteral),
                       RStar (RClass whitespace)]) s"


subsection \<open>What the patterns match\<close>
















section \<open>Tabular inference: lines, fields and the delimiter\<close>

text \<open>\<open>s.split(c)\<close> for a one-character separator: never the empty array.\<close>

fun split_from :: "char \<Rightarrow> string \<Rightarrow> string \<Rightarrow> string list" where
  "split_from c piece [] = [piece]"
| "split_from c piece (x # xs) =
     (if x = c then piece # split_from c [] xs else split_from c (piece @ [x]) xs)"

definition split :: "char \<Rightarrow> string \<Rightarrow> string list" where
  "split c s = split_from c [] s"
























section \<open>Tabular inference: the header row\<close>



















section \<open>Numbers and parsers of the platform\<close>

text \<open>
  Operations on the numbers of the source (\<open>jsnum\<close>): finite values are exact
  rationals, so rounding, overflow and the sign of zero are not modelled; the two
  infinities and \<open>NaN\<close> are.
\<close>

fun js_div :: "jsnum \<Rightarrow> jsnum \<Rightarrow> jsnum" where
  "js_div (Fin a) (Fin b) =
     (if b = 0 then (if a = 0 then NaN else if a > 0 then PInf else NInf) else Fin (a / b))"
| "js_div NaN _ = NaN"
| "js_div _ NaN = NaN"
| "js_div (Fin a) _ = Fin 0"
| "js_div PInf (Fin b) = (if b < 0 then NInf else PInf)"
| "js_div NInf (Fin b) = (if b < 0 then PInf else NInf)"
| "js_div _ _ = NaN"


text \<open>\<open>a - b > 0\<close>, the test a comparator \<open>(a, b) => a - b\<close> stands for.\<close>

fun js_greater :: "jsnum \<Rightarrow> jsnum \<Rightarrow> bool" where
  "js_greater (Fin a) (Fin b) = (a > b)"
| "js_greater NaN _ = False"
| "js_greater _ NaN = False"
| "js_greater PInf PInf = False"
| "js_greater PInf _ = True"
| "js_greater _ PInf = False"
| "js_greater NInf _ = False"
| "js_greater _ NInf = True"

text \<open>\<open>Math.min(...xs)\<close> and \<open>Math.max(...xs)\<close>.\<close>

fun js_min2 :: "jsnum \<Rightarrow> jsnum \<Rightarrow> jsnum" where
  "js_min2 NaN _ = NaN"
| "js_min2 _ NaN = NaN"
| "js_min2 a b = (if js_greater a b then b else a)"

fun js_max2 :: "jsnum \<Rightarrow> jsnum \<Rightarrow> jsnum" where
  "js_max2 NaN _ = NaN"
| "js_max2 _ NaN = NaN"
| "js_max2 a b = (if js_greater b a then b else a)"

definition Math_min :: "jsnum list \<Rightarrow> jsnum" where
  "Math_min xs = foldl js_min2 PInf xs"

definition Math_max :: "jsnum list \<Rightarrow> jsnum" where
  "Math_max xs = foldl js_max2 NInf xs"

text \<open>\<open>x || 0\<close> on numbers: \<open>0\<close> and \<open>NaN\<close> are falsy.\<close>

definition or_zero :: "jsnum \<Rightarrow> jsnum" where
  "or_zero x = (if x = NaN \<or> x = Fin 0 then Fin 0 else x)"


text \<open>
  \<open>parseFloat\<close>: leading white space is skipped, then the longest prefix that is a
  decimal literal is read; \<open>NaN\<close> when there is none.
\<close>

definition digits_value :: "string \<Rightarrow> nat" where
  "digits_value ds = foldl (\<lambda>a c. 10 * a + (of_char c - 48)) 0 ds"

definition split_sign :: "string \<Rightarrow> bool \<times> string" where
  "split_sign s =
     (case s of
        [] \<Rightarrow> (False, [])
      | c # cs \<Rightarrow> if c = CHR ''-'' then (True, cs) else if c = CHR ''+'' then (False, cs)
                 else (False, s))"

definition exponent_value :: "string \<Rightarrow> int" where
  "exponent_value s =
     (case s of
        [] \<Rightarrow> 0
      | c # cs \<Rightarrow>
          if c = CHR ''e'' \<or> c = CHR ''E'' then
            (case split_sign cs of (negative, ds) \<Rightarrow>
               let e = takeWhile digit ds in
               if e = [] then 0
               else if negative then - int (digits_value e) else int (digits_value e))
          else 0)"

definition parseFloat :: "string \<Rightarrow> jsnum" where
  "parseFloat s =
     (case split_sign (dropWhile whitespace s) of (negative, u) \<Rightarrow>
        if prefix ''Infinity'' u then (if negative then NInf else PInf)
        else
          let int_part = takeWhile digit u; r1 = dropWhile digit u;
              frac_part = (case r1 of [] \<Rightarrow> []
                           | c # cs \<Rightarrow> if c = CHR ''.'' then takeWhile digit cs else []);
              r2 = (case r1 of [] \<Rightarrow> []
                    | c # cs \<Rightarrow> if c = CHR ''.'' then dropWhile digit cs else r1)
          in if int_part = [] \<and> frac_part = [] then NaN
             else
               let mantissa = of_nat (digits_value int_part)
                              + of_nat (digits_value frac_part) / 10 ^ length frac_part;
                   e = exponent_value r2;
                   v = (if e \<ge> 0 then mantissa * 10 ^ nat e else mantissa / 10 ^ nat (- e))
               in Fin (if negative then - v else v))"

text \<open>
  The platform's \<open>URL\<close> constructor and \<open>Date\<close> parser decide two of the patterns.
  Of \<open>new URL(s)\<close> without a base the model has the start of the standard's parser:
  control characters and spaces are removed at both ends, tabs and newlines everywhere;
  the input must then begin with a scheme, a letter followed by letters, digits,
  \<open>+\<close>, \<open>-\<close> or \<open>.\<close> up to a colon, or the constructor throws. Whether what follows
  the scheme is accepted is left to the parameter \<open>url_after_scheme\<close>, and whether
  \<open>new Date(s)\<close> is a valid date to the parameter \<open>date_valid\<close>.
\<close>

record platform =
  url_after_scheme :: "string \<Rightarrow> string \<Rightarrow> bool"
  date_valid :: "string \<Rightarrow> bool"

definition scheme_char :: "char \<Rightarrow> bool" where
  "scheme_char c \<longleftrightarrow> letter c \<or> digit c \<or> c = CHR ''+'' \<or> c = CHR ''-'' \<or> c = CHR ''.''"

definition url_scheme :: "string \<Rightarrow> (string \<times> string) option" where
  "url_scheme input =
     (let stripped = rev (dropWhile (\<lambda>c. (of_char c :: nat) \<le> 32)
                       (rev (dropWhile (\<lambda>c. (of_char c :: nat) \<le> 32) input)));
          s = filter (\<lambda>c. (of_char c :: nat) \<notin> {9, 10, 13}) stripped
      in case s of
           [] \<Rightarrow> None
         | c # cs \<Rightarrow>
             if letter c then
               (case dropWhile scheme_char cs of
                  [] \<Rightarrow> None
                | x # rest \<Rightarrow>
                    if x = CHR '':'' then Some (toLowerCase (c # takeWhile scheme_char cs), rest)
                    else None)
             else None)"

definition URL_valid :: "platform \<Rightarrow> string \<Rightarrow> bool" where
  "URL_valid P input =
     (case url_scheme input of
        None \<Rightarrow> False
      | Some (scheme, rest) \<Rightarrow> url_after_scheme P scheme rest)"



section \<open>Tabular inference: the type of a column\<close>

text \<open>The pattern tests of \<open>CsvGenerator.ts\<close>.\<close>

definition boolean_words :: "string list" where
  "boolean_words = [''true'', ''false'', ''yes'', ''no'', ''1'', ''0'', ''y'', ''n'']"

definition isEmail :: "string \<Rightarrow> bool" where
  "isEmail value =
     (let part = RPlus (RClass (\<lambda>c. \<not> whitespace c \<and> c \<noteq> CHR ''@''))
      in matches (RSeqs [part, RChar CHR ''@'', part, RChar CHR ''.'', part]) (trim value))"

definition isUrl :: "platform \<Rightarrow> string \<Rightarrow> bool" where
  "isUrl P value = URL_valid P (trim value)"

definition datePatterns :: "rexp list" where
  "datePatterns =
     (let d = RClass digit in
      [RSeqs [RTimes 4 d, RChar CHR ''-'', RTimes 2 d, RChar CHR ''-'', RTimes 2 d],
       RSeqs [RTimes 2 d, RChar CHR ''/'', RTimes 2 d, RChar CHR ''/'', RTimes 4 d],
       RSeqs [RTimes 2 d, RChar CHR ''-'', RTimes 2 d, RChar CHR ''-'', RTimes 4 d],
       RSeqs [RTimes 4 d, RChar CHR ''/'', RTimes 2 d, RChar CHR ''/'', RTimes 2 d],
       RSeqs [RTimes 2 d, RChar CHR ''.'', RTimes 2 d, RChar CHR ''.'', RTimes 4 d]])"

definition isDate :: "platform \<Rightarrow> string \<Rightarrow> bool" where
  "isDate P value =
     (if value = [] \<or> length value < 6 then False
      else if \<not> date_valid P value then False
      else list_ex (\<lambda>pattern. matches pattern (trim value)) datePatterns)"

text \<open>
  \<open>inferColumnType\<close> of \<open>CsvGenerator.ts\<close>: one pass over the sample with five
  counters, then the thresholds in the order of the source. The quotient of a count by
  the sample size, at most \<open>100\<close>, is compared with \<open>0.8\<close>; the doubles compare as the
  exact quotient and \<open>4/5\<close> do, since a quotient other than \<open>4/5\<close> with a denominator
  up to \<open>100\<close> is further from it than any rounding.
\<close>

record type_counts =
  numericCount :: nat
  booleanCount :: nat
  dateCount :: nat
  emailCount :: nat
  urlCount :: nat

definition count_value :: "platform \<Rightarrow> type_counts \<Rightarrow> string \<Rightarrow> type_counts" where
  "count_value P counts value =
     (let trimmed = toLowerCase (trim value);
          counts = (if trimmed \<in> set boolean_words
                    then counts\<lparr>booleanCount := booleanCount counts + 1\<rparr> else counts);
          counts = (if \<not> Number_isNaN value \<and> trim value \<noteq> []
                    then counts\<lparr>numericCount := numericCount counts + 1\<rparr> else counts);
          counts = (if isDate P value
                    then counts\<lparr>dateCount := dateCount counts + 1\<rparr> else counts);
          counts = (if isEmail value
                    then counts\<lparr>emailCount := emailCount counts + 1\<rparr> else counts);
          counts = (if isUrl P value
                    then counts\<lparr>urlCount := urlCount counts + 1\<rparr> else counts)
      in counts)"

definition inferColumnType :: "platform \<Rightarrow> string list \<Rightarrow> string" where
  "inferColumnType P values =
     (if length values = 0 then ''string''
      else
        let sample = take (min 100 (length values)) values;
            counts = foldl (count_value P)
                       \<lparr>numericCount = 0, booleanCount = 0, dateCount = 0,
                        emailCount = 0, urlCount = 0\<rparr> sample;
            total = (of_nat (length sample) :: rat);
            threshold = (4 / 5 :: rat)
        in if of_nat (emailCount counts) / total \<ge> threshold then ''email''
           else if of_nat (urlCount counts) / total \<ge> threshold then ''url''
           else if of_nat (booleanCount counts) / total \<ge> threshold then ''boolean''
           else if of_nat (numericCount counts) / total \<ge> threshold then ''number''
           else if of_nat (dateCount counts) / total \<ge> threshold then ''date''
           else
             let typeCount = length (filter (\<lambda>count. count > 0)
                   [numericCount counts, booleanCount counts, dateCount counts,
                    emailCount counts, urlCount counts])
             in if typeCount > 1 then ''mixed'' else ''string'')"







text \<open>
  \<open>analyzeColumnValues\<close> of \<open>csv.pegjs\<close>: the pass over the sample, with the six
  counters, the numeric values and the lengths.
\<close>

record peg_patterns =
  p_numeric :: nat
  p_boolean :: nat
  p_date :: nat
  p_email :: nat
  p_url :: nat
  p_phone :: nat

record peg_pass =
  patterns :: peg_patterns
  numericValues :: "jsnum list"
  lengths :: "nat list"






























section \<open>Tabular inference: the columns\<close>

text \<open>A natural number in decimal, as a template literal prints it.\<close>

fun decimal :: "nat \<Rightarrow> string" where
  "decimal n =
     (if n < 10 then [char_of (48 + n)] else decimal (n div 10) @ [char_of (48 + n mod 10)])"

declare decimal.simps [simp del]

text \<open>\<open>row[colIndex] || ''\<close>: the empty string for a missing cell.\<close>

definition cell :: "string list \<Rightarrow> nat \<Rightarrow> string" where
  "cell row colIndex = (if colIndex < length row then row ! colIndex else [])"

text \<open>\<open>Array.from(new Set(values))\<close>: the distinct values in the order of their first
  occurrence.\<close>

fun distinct_values :: "string list \<Rightarrow> string list \<Rightarrow> string list" where
  "distinct_values seen [] = []"
| "distinct_values seen (v # vs) =
     (if v \<in> set seen then distinct_values seen vs else v # distinct_values (seen @ [v]) vs)"

definition getSampleValues :: "string list \<Rightarrow> nat \<Rightarrow> string list" where
  "getSampleValues values count = take count (distinct_values [] values)"

text \<open>
  \<open>CsvColumn\<close> and \<open>analyzeColumns\<close> of \<open>CsvGenerator.ts\<close>. The fields carry the
  prefix \<open>col_\<close>; an optional field is an option.
\<close>

record CsvColumn =
  col_name :: string
  col_index :: nat
  col_type :: string
  col_nullable :: bool
  col_uniqueValues :: nat
  col_sampleValues :: "string list"
  col_minLength :: "jsnum option"
  col_maxLength :: "jsnum option"
  col_min :: "jsnum option"
  col_max :: "jsnum option"
  col_avgLength :: "jsnum option"

definition analyzeColumn :: "platform \<Rightarrow> string list \<Rightarrow> string list list \<Rightarrow> nat \<Rightarrow> CsvColumn" where
  "analyzeColumn P headers dataRows colIndex =
     (let columnName = (if cell headers colIndex = [] then ''Column_'' @ decimal (colIndex + 1)
                        else cell headers colIndex);
          values = filter (\<lambda>value. length value > 0) (map (\<lambda>row. cell row colIndex) dataRows);
          column = \<lparr>
            col_name = columnName,
            col_index = colIndex,
            col_type = inferColumnType P values,
            col_nullable = list_ex (\<lambda>row. cell row colIndex = [] \<or> trim (cell row colIndex) = []) dataRows,
            col_uniqueValues = length (distinct_values [] values),
            col_sampleValues = getSampleValues values 5,
            col_minLength = Some (Math_min (map (\<lambda>v. Fin (of_nat (length v))) values)),
            col_maxLength = Some (Math_max (map (\<lambda>v. Fin (of_nat (length v))) values)),
            col_min = None,
            col_max = None,
            col_avgLength = Some (or_zero (js_div
              (Fin (of_nat (foldl (\<lambda>sum v. sum + length v) 0 values)))
              (Fin (of_nat (length values)))))\<rparr>
      in if col_type column = ''number'' then
           (let numericValues = filter (\<lambda>v. v \<noteq> NaN) (map parseFloat values)
            in if length numericValues > 0
               then column\<lparr>col_min := Some (Math_min numericValues),
                           col_max := Some (Math_max numericValues)\<rparr>
               else column)
         else column)"

definition analyzeColumns ::
  "platform \<Rightarrow> string list \<Rightarrow> string list list \<Rightarrow> nat \<Rightarrow> CsvColumn list" where
  "analyzeColumns P headers dataRows columnCount =
     map (analyzeColumn P headers dataRows) [0 ..< columnCount]"

lemma empty_column:
  assumes "colIndex < columnCount" and "\<forall>row \<in> set dataRows. cell row colIndex = []"
  shows "length (analyzeColumns P headers dataRows columnCount) = columnCount
    \<and> analyzeColumns P headers dataRows columnCount ! colIndex =
      \<lparr>col_name = (if cell headers colIndex = [] then ''Column_'' @ decimal (colIndex + 1)
                    else cell headers colIndex),
       col_index = colIndex,
       col_type = ''string'',
       col_nullable = (dataRows \<noteq> []),
       col_uniqueValues = 0,
       col_sampleValues = [],
       col_minLength = Some PInf,
       col_maxLength = Some NInf,
       col_min = None,
       col_max = None,
       col_avgLength = Some (Fin 0)\<rparr>"
proof -
  have v: "filter (\<lambda>value. length value > 0) (map (\<lambda>row. cell row colIndex) dataRows) = []"
    using assms(2) by (induction dataRows) auto
  have n: "list_ex (\<lambda>row. cell row colIndex = [] \<or> trim (cell row colIndex) = []) dataRows
      \<longleftrightarrow> dataRows \<noteq> []"
    using assms(2) by (cases dataRows) (auto simp: list_ex_iff)
  have t: "inferColumnType P [] = ''string''" by (simp add: inferColumnType_def)
  have a: "or_zero NaN = Fin 0" by (simp add: or_zero_def)
  have c: "analyzeColumn P headers dataRows colIndex =
      \<lparr>col_name = (if cell headers colIndex = [] then ''Column_'' @ decimal (colIndex + 1)
                    else cell headers colIndex),
       col_index = colIndex,
       col_type = ''string'',
       col_nullable = (dataRows \<noteq> []),
       col_uniqueValues = 0,
       col_sampleValues = [],
       col_minLength = Some PInf,
       col_maxLength = Some NInf,
       col_min = None,
       col_max = None,
       col_avgLength = Some (Fin 0)\<rparr>"
    unfolding analyzeColumn_def v n Let_def t
    by (simp add: getSampleValues_def Math_min_def Math_max_def a)
  from assms(1) have "analyzeColumns P headers dataRows columnCount ! colIndex
      = analyzeColumn P headers dataRows colIndex"
    by (simp add: analyzeColumns_def)
  with c show ?thesis by (simp add: analyzeColumns_def)
qed


text \<open>
  C10. A column of \<open>analyzeColumns\<close> in which no data row has a non-empty cell is still
  emitted, with type \<open>string\<close>, no unique and no sample values, average length \<open>0\<close>,
  and the minimum and maximum of no lengths: \<open>minLength\<close> is \<open>+Infinity\<close> and
  \<open>maxLength\<close> is \<open>-Infinity\<close>.
\<close>

theorem empty_column_degenerate_statistics:
  "colIndex < columnCount \<and> (\<forall>row \<in> set dataRows. cell row colIndex = []) \<longrightarrow>
     length (analyzeColumns P headers dataRows columnCount) = columnCount
     \<and> analyzeColumns P headers dataRows columnCount ! colIndex =
       \<lparr>col_name = (if cell headers colIndex = [] then ''Column_'' @ decimal (colIndex + 1)
                     else cell headers colIndex),
        col_index = colIndex,
        col_type = ''string'',
        col_nullable = (dataRows \<noteq> []),
        col_uniqueValues = 0,
        col_sampleValues = [],
        col_minLength = Some PInf,
        col_maxLength = Some NInf,
        col_min = None,
        col_max = None,
        col_avgLength = Some (Fin 0)\<rparr>"
  using empty_column [of colIndex columnCount dataRows P headers] by blast

theorem empty_column_degenerate_statistics_witness:
  "(1 :: nat) < 2
   \<and> list_all (\<lambda>row. cell row 1 = []) [[''Alice'', []], [''Bob'']]
   \<and> analyzeColumns \<lparr>url_after_scheme = \<lambda>scheme rest. True, date_valid = \<lambda>value. True\<rparr>
        [''Name'', ''Note''] [[''Alice'', []], [''Bob'']] 2 ! 1 =
       \<lparr>col_name = ''Note'',
        col_index = 1,
        col_type = ''string'',
        col_nullable = True,
        col_uniqueValues = 0,
        col_sampleValues = [],
        col_minLength = Some PInf,
        col_maxLength = Some NInf,
        col_min = None,
        col_max = None,
        col_avgLength = Some (Fin 0)\<rparr>"
  using empty_column_degenerate_statistics
    [of 1 2 "[[''Alice'', []], [''Bob'']]"
        "\<lparr>url_after_scheme = \<lambda>scheme rest. True, date_valid = \<lambda>value. True\<rparr>"
        "[''Name'', ''Note'']"]
  by (simp add: cell_def)


section \<open>Tabular inference: numeric statistics\<close>

























record CsvStats =
  totalRows :: nat
  dataRows :: nat
  columns :: "CsvColumn list"
  delimiter :: string
  hasHeader :: bool
  encoding :: string
  emptyRows :: nat
































end
